theory Spec2Isabelle
  imports Complex_Main "HOL-Library.List_Lexorder" "HOL-Library.Char_ord"
    "HOL-Library.Multiset" "HOL-Library.Sublist"
begin

section \<open>The sales panel \<open>thales_vendas.py\<close>\<close>

text \<open>
  The program is one Streamlit script. Each run of the script is modelled as a function
  from the secrets, the session state and the state of the two filter widgets to the new
  session state, the list of page elements written so far and the way the run ended
  (\<open>st.stop()\<close>, the end of the script, or an uncaught exception).

  Modelling decisions, all of them visible in the definitions below:
  \<^item> Amounts are exact rationals, so \<open>1.1\<close> is \<open>11/10\<close> and \<open>0.9\<close> is \<open>9/10\<close>; the
    rounding of 64-bit floats is not modelled. A cell of a numeric column is a number or
    \<open>NaN\<close>, and \<open>NaN\<close> behaves as in pandas: arithmetic propagates it, every comparison
    with it is false, \<open>sum()\<close> skips it.
  \<^item> The payload is what \<open>json.loads\<close> makes of the secret \<open>DADOS_VENDAS\<close>: either the
    call raises, or it returns a list of objects. In an object a key is present or absent;
    a present \<open>Cidade\<close> is a string and a present month is a number. JSON null, booleans,
    strings in a month field and payloads of another shape are outside the model: what
    pandas does with them is decided by its dtype inference, not by this source.
  \<^item> \<open>pd.DataFrame(data)\<close> on a list of objects has a column for every key that occurs in
    some object and fills a key that an object lacks with \<open>NaN\<close>.
\<close>

subsection \<open>Values\<close>

datatype exn = JSONDecodeError | KeyError string | TypeError | ZeroDivisionError

fun bindE :: "exn + 'a \<Rightarrow> ('a \<Rightarrow> exn + 'b) \<Rightarrow> exn + 'b" where
  "bindE (Inl e) f = Inl e"
| "bindE (Inr x) f = f x"

datatype amount = Num rat | NaN

fun add :: "amount \<Rightarrow> amount \<Rightarrow> amount" where
  "add (Num a) (Num b) = Num (a + b)"
| "add _ _ = NaN"

fun mul :: "amount \<Rightarrow> amount \<Rightarrow> amount" where
  "mul (Num a) (Num b) = Num (a * b)"
| "mul _ _ = NaN"

text \<open>Division is only ever by the literal \<open>3\<close>, so no division by zero arises here.\<close>

fun truediv :: "amount \<Rightarrow> rat \<Rightarrow> amount" where
  "truediv (Num a) d = Num (a / d)"
| "truediv NaN d = NaN"

fun eq :: "amount \<Rightarrow> amount \<Rightarrow> bool" where
  "eq (Num a) (Num b) = (a = b)"
| "eq _ _ = False"

fun gt :: "amount \<Rightarrow> amount \<Rightarrow> bool" where
  "gt (Num a) (Num b) = (a > b)"
| "gt _ _ = False"

fun lt :: "amount \<Rightarrow> amount \<Rightarrow> bool" where
  "lt (Num a) (Num b) = (a < b)"
| "lt _ _ = False"

text \<open>
  The four labels are the Python strings \<open>"Sem Venda"\<close>, \<open>"Crescimento"\<close>, \<open>"Queda"\<close> and
  \<open>"Estavel"\<close> (its \<open>a\<close> carries an acute accent, code point \<open>0xE1\<close>); \<open>status_name\<close>
  gives the string, which is what \<open>sorted\<close> compares.
\<close>

datatype status = Sem_Venda | Crescimento | Queda | Estavel

fun status_name :: "status \<Rightarrow> string" where
  "status_name Sem_Venda = ''Sem Venda''"
| "status_name Crescimento = ''Crescimento''"
| "status_name Queda = ''Queda''"
| "status_name Estavel = ''Est'' @ [CHR 0xE1] @ ''vel''"

subsection \<open>Data frames\<close>

text \<open>
  A frame has its column names and its rows. The row type grows with the columns the
  loader adds: \<open>venda\<close> after \<open>pd.DataFrame(data)\<close>, \<open>venda_media\<close> with the quarter's
  average, \<open>row\<close> with the label.
\<close>

record json_object =
  jCidade :: "string option"
  jAGO :: "rat option"
  jSET :: "rat option"
  jOUT :: "rat option"
  jNOV :: "rat option"

datatype payload = Malformed | Records "json_object list"

record venda =
  Cidade :: "string option"
  AGO :: amount
  SET :: amount
  OUT :: amount
  NOV :: amount

record venda_media = venda +
  Media_Trimestre_Ant :: amount

record row = venda_media +
  Status :: status

record 'r frame =
  columns :: "string list"
  rows :: "'r list"

definition empty_DataFrame :: "row frame" where
  "empty_DataFrame = \<lparr>columns = [], rows = []\<rparr>"

definition cell :: "rat option \<Rightarrow> amount" where
  "cell v = (case v of None \<Rightarrow> NaN | Some x \<Rightarrow> Num x)"

definition DataFrame :: "json_object list \<Rightarrow> venda frame" where
  "DataFrame data =
     \<lparr>columns =
        (if list_ex (\<lambda>d. jCidade d \<noteq> None) data then [''Cidade''] else []) @
        (if list_ex (\<lambda>d. jAGO d \<noteq> None) data then [''AGO''] else []) @
        (if list_ex (\<lambda>d. jSET d \<noteq> None) data then [''SET''] else []) @
        (if list_ex (\<lambda>d. jOUT d \<noteq> None) data then [''OUT''] else []) @
        (if list_ex (\<lambda>d. jNOV d \<noteq> None) data then [''NOV''] else []),
      rows = map (\<lambda>d. \<lparr>Cidade = jCidade d, AGO = cell (jAGO d), SET = cell (jSET d),
                         OUT = cell (jOUT d), NOV = cell (jNOV d)\<rparr>) data\<rparr>"

text \<open>\<open>df[c]\<close>: the column, or \<open>KeyError\<close> when the frame has no such column.\<close>

definition getitem :: "'r frame \<Rightarrow> string \<Rightarrow> ('r \<Rightarrow> 'a) \<Rightarrow> exn + 'a list" where
  "getitem df c field =
     (if c \<in> set (columns df) then Inr (map field (rows df)) else Inl (KeyError c))"

subsection \<open>The loader\<close>

text \<open>
  \<open>get_status\<close> is the inner function of \<open>load_data\<close>, branch for branch. It reads
  \<open>row['NOV']\<close> and \<open>row['Media_Trimestre_Ant']\<close>; the \<open>KeyError\<close> of a frame without a
  \<open>NOV\<close> column is raised in \<open>apply_get_status\<close>, which is \<open>df.apply(get_status, axis=1)\<close>
  followed by the assignment of the \<open>Status\<close> column. The frame it is applied to has at
  least one row, since it has a column \<open>AGO\<close> (lemma \<open>getitem_DataFrame_nonempty\<close>).
\<close>

definition get_status :: "'a venda_media_scheme \<Rightarrow> status" where
  "get_status r =
     (if eq (NOV r) (Num 0) then Sem_Venda
      else if gt (NOV r) (mul (Media_Trimestre_Ant r) (Num (11 / 10))) then Crescimento
      else if lt (NOV r) (mul (Media_Trimestre_Ant r) (Num (9 / 10))) then Queda
      else Estavel)"

definition with_media :: "venda \<Rightarrow> venda_media" where
  "with_media v =
     \<lparr>Cidade = Cidade v, AGO = AGO v, SET = SET v, OUT = OUT v, NOV = NOV v,
      Media_Trimestre_Ant = truediv (add (add (AGO v) (SET v)) (OUT v)) 3\<rparr>"

definition with_status :: "venda_media \<Rightarrow> row" where
  "with_status v =
     \<lparr>Cidade = Cidade v, AGO = AGO v, SET = SET v, OUT = OUT v, NOV = NOV v,
      Media_Trimestre_Ant = Media_Trimestre_Ant v, Status = get_status v\<rparr>"

definition apply_get_status :: "venda_media frame \<Rightarrow> exn + row frame" where
  "apply_get_status df =
     (if ''NOV'' \<notin> set (columns df) then Inl (KeyError ''NOV'')
      else Inr \<lparr>columns = columns df @ [''Status''], rows = map with_status (rows df)\<rparr>)"

text \<open>The body of the \<open>try\<close> block: every exception it can raise is an \<open>Inl\<close>.\<close>

definition try_load :: "payload \<Rightarrow> exn + row frame" where
  "try_load dados =
     (case dados of
        Malformed \<Rightarrow> Inl JSONDecodeError
      | Records data \<Rightarrow>
          (let df = DataFrame data in
           bindE (getitem df ''AGO'' AGO) (\<lambda>_.
           bindE (getitem df ''SET'' SET) (\<lambda>_.
           bindE (getitem df ''OUT'' OUT) (\<lambda>_.
           apply_get_status
             \<lparr>columns = columns df @ [''Media_Trimestre_Ant''],
              rows = map with_media (rows df)\<rparr>)))))"

datatype message = Senha_incorreta | Erro_ao_processar_dados exn | Nenhum_dado_encontrado

datatype chart = Vendas_de_Agosto | Vendas_de_Setembro | Vendas_de_Outubro
  | Vendas_de_Novembro | Comparativo

datatype metric = Total_Vendas | Media_Trimestral | Variacao

datatype element =
    Login_title | Login_markdown | Senha_text_input
  | Error message | Warning message
  | Style_markdown | Sidebar_header
  | Multiselect_cidades "string option list" | Multiselect_status "status list"
  | Painel_title | Visao_filtrada nat | Metric metric rat | Divider
  | Plotly_chart chart "row list" | Detalhes_markdown | Dataframe "row list"

text \<open>\<open>load_data\<close> returns the frame and the elements it wrote (\<open>st.error\<close>).\<close>

definition load_data :: "payload \<Rightarrow> row frame \<times> element list" where
  "load_data dados =
     (case try_load dados of
        Inr df \<Rightarrow> (df, [])
      | Inl e \<Rightarrow> (empty_DataFrame, [Error (Erro_ao_processar_dados e)]))"

subsection \<open>Filters\<close>

text \<open>
  \<open>unique\<close> keeps the first occurrence of each value. \<open>sorted\<close> on the city cells compares
  strings by code point and raises \<open>TypeError\<close> when it has to compare a string with a
  \<open>NaN\<close>.
\<close>

definition unique :: "'a list \<Rightarrow> 'a list" where
  "unique xs = rev (remdups (rev xs))"

definition sorted_cells :: "string option list \<Rightarrow> exn + string option list" where
  "sorted_cells xs =
     (if None \<in> set xs \<and> list_ex (\<lambda>x. x \<noteq> None) xs then Inl TypeError
      else if None \<in> set xs then Inr xs
      else Inr (map Some (sort (concat (map (\<lambda>x. case x of None \<Rightarrow> [] | Some s \<Rightarrow> [s]) xs)))))"

definition cidades_disponiveis :: "row frame \<Rightarrow> exn + string option list" where
  "cidades_disponiveis df_full =
     bindE (getitem df_full ''Cidade'' Cidade) (\<lambda>col. sorted_cells (unique col))"

definition status_disponiveis :: "row frame \<Rightarrow> exn + status list" where
  "status_disponiveis df_full =
     bindE (getitem df_full ''Status'' Status) (\<lambda>col. Inr (sort_key status_name (unique col)))"

text \<open>
  A multiselect returns its default, all the options, until the user changes it; the
  widget state is \<open>None\<close> until then.
\<close>

definition multiselect :: "'a list \<Rightarrow> 'a list option \<Rightarrow> 'a list" where
  "multiselect options state = (case state of None \<Rightarrow> options | Some sel \<Rightarrow> sel)"

definition isin :: "'a list \<Rightarrow> 'a list \<Rightarrow> bool list" where
  "isin col values = map (\<lambda>x. x \<in> set values) col"

definition mask_and :: "bool list \<Rightarrow> bool list \<Rightarrow> bool list" where
  "mask_and m1 m2 = map (\<lambda>(a, b). a \<and> b) (zip m1 m2)"

definition loc_mask :: "'r frame \<Rightarrow> bool list \<Rightarrow> 'r frame" where
  "loc_mask df m = df\<lparr>rows := map fst (filter snd (zip (rows df) m))\<rparr>"

definition filter_df :: "row frame \<Rightarrow> string option list \<Rightarrow> status list \<Rightarrow> row frame" where
  "filter_df df_full cidades_sel status_sel =
     loc_mask df_full
       (mask_and (isin (map Cidade (rows df_full)) cidades_sel)
                 (isin (map Status (rows df_full)) status_sel))"

definition empty :: "'r frame \<Rightarrow> bool" where
  "empty df = (columns df = [] \<or> rows df = [])"

subsection \<open>Aggregation\<close>

text \<open>
  \<open>Series.sum()\<close> runs over the cells and skips \<open>NaN\<close>. A division whose divisor is zero
  has no value in the model (\<open>None\<close>), so that the guard of \<open>variacao\<close> is visible.
\<close>

definition series_sum :: "amount list \<Rightarrow> rat" where
  "series_sum col = foldl (\<lambda>acc x. case x of Num v \<Rightarrow> acc + v | NaN \<Rightarrow> acc) 0 col"

definition divide_opt :: "rat \<Rightarrow> rat \<Rightarrow> rat option" where
  "divide_opt a b = (if b = 0 then None else Some (a / b))"

text \<open>Lines 120 to 122, one definition for each assignment.\<close>

definition total_nov :: "row list \<Rightarrow> rat" where
  "total_nov df = series_sum (map NOV df)"

definition total_media :: "row list \<Rightarrow> rat" where
  "total_media df = series_sum (map Media_Trimestre_Ant df)"

definition variacao :: "rat \<Rightarrow> rat \<Rightarrow> rat option" where
  "variacao tn tm =
     (if tm > 0 then map_option (\<lambda>q. (q - 1) * 100) (divide_opt tn tm) else Some 0)"



subsection \<open>The script\<close>

text \<open>
  \<open>st.secrets\<close>: the password and the payload. \<open>st.session_state\<close>: the key \<open>logado\<close> is
  absent (\<open>None\<close>) in a fresh session; \<open>senha_input\<close> is the text input's value. The two
  multiselects keep their own state.
\<close>

record secrets =
  SENHA_ACESSO :: string
  DADOS_VENDAS :: payload

record session_state =
  logado :: "bool option"
  senha_input :: string

record widgets =
  cidades_widget :: "string option list option"
  status_widget :: "status list option"

datatype outcome = Stop | Finished | Uncaught exn

definition verificar_senha :: "secrets \<Rightarrow> session_state \<Rightarrow> session_state \<times> element list" where
  "verificar_senha sec ss =
     (if senha_input ss = SENHA_ACESSO sec then (ss\<lparr>logado := Some True\<rparr>, [])
      else (ss, [Error Senha_incorreta]))"

text \<open>
  Lines 115 to 214: title, the three metrics, the five charts and the table. Layout
  containers (columns, tabs) and the formatting of numbers are left out, and a chart
  carries the frame it is drawn from.
\<close>

definition dashboard :: "row frame \<Rightarrow> element list \<times> outcome" where
  "dashboard df =
     (let head = [Painel_title, Visao_filtrada (length (rows df))];
          tn = total_nov (rows df);
          tm = total_media (rows df)
      in case variacao tn tm of
        None \<Rightarrow> (head, Uncaught ZeroDivisionError)
      | Some v \<Rightarrow>
          (head @
           [Metric Total_Vendas tn, Metric Media_Trimestral tm, Metric Variacao v, Divider,
            Plotly_chart Vendas_de_Agosto (rows df), Plotly_chart Vendas_de_Setembro (rows df),
            Plotly_chart Vendas_de_Outubro (rows df), Plotly_chart Vendas_de_Novembro (rows df),
            Plotly_chart Comparativo (rows df), Detalhes_markdown, Dataframe (rows df)],
           Finished))"

definition login_form :: "element list" where
  "login_form = [Login_title, Login_markdown, Senha_text_input]"

definition script ::
  "secrets \<Rightarrow> session_state \<Rightarrow> widgets \<Rightarrow> session_state \<times> element list \<times> outcome" where
  "script sec ss w =
     (let ss1 = (if logado ss = None then ss\<lparr>logado := Some False\<rparr> else ss) in
      if logado ss1 \<noteq> Some True then (ss1, login_form, Stop)
      else
        (let (df_full, out1) = load_data (DADOS_VENDAS sec);
             out2 = out1 @ [Style_markdown, Sidebar_header]
         in case cidades_disponiveis df_full of
              Inl e \<Rightarrow> (ss1, out2, Uncaught e)
            | Inr cidades \<Rightarrow>
                (let cidades_sel = multiselect cidades (cidades_widget w);
                     out3 = out2 @ [Multiselect_cidades cidades]
                 in case status_disponiveis df_full of
                      Inl e \<Rightarrow> (ss1, out3, Uncaught e)
                    | Inr sts \<Rightarrow>
                        (let status_sel = multiselect sts (status_widget w);
                             out4 = out3 @ [Multiselect_status sts];
                             df = filter_df df_full cidades_sel status_sel
                         in if empty df
                            then (ss1, out4 @ [Warning Nenhum_dado_encontrado], Stop)
                            else (let (els, oc) = dashboard df
                                  in (ss1, out4 @ els, oc))))))"

text \<open>
  What a user can do. Typing a password sets \<open>senha_input\<close>, runs the callback
  \<open>verificar_senha\<close> and then the script again; its elements come first on the page.
\<close>

datatype interaction = Open_page | Enter_password string | Change_filters widgets

fun interact ::
  "secrets \<Rightarrow> session_state \<times> widgets \<Rightarrow> interaction \<Rightarrow>
   (session_state \<times> widgets) \<times> element list \<times> outcome" where
  "interact sec (ss, w) Open_page =
     (let (ss', els, oc) = script sec ss w in ((ss', w), els, oc))"
| "interact sec (ss, w) (Enter_password s) =
     (let (ss1, els1) = verificar_senha sec (ss\<lparr>senha_input := s\<rparr>);
          (ss', els, oc) = script sec ss1 w
      in ((ss', w), els1 @ els, oc))"
| "interact sec (ss, w) (Change_filters w') =
     (let (ss', els, oc) = script sec ss w' in ((ss', w'), els, oc))"

fun session ::
  "secrets \<Rightarrow> session_state \<times> widgets \<Rightarrow> interaction list \<Rightarrow> session_state \<times> widgets" where
  "session sec st [] = st"
| "session sec st (i # is) = session sec (fst (interact sec st i)) is"

definition fresh :: "session_state \<times> widgets" where
  "fresh = (\<lparr>logado = None, senha_input = []\<rparr>,
            \<lparr>cidades_widget = None, status_widget = None\<rparr>)"

subsection \<open>The classification rule as the specification words it\<close>

text \<open>
  Section 4.2 of the specification: a list of rules in priority order, the first rule
  that matches wins, and \<open>Stable\<close> when none does. The labels \<open>NoSale\<close>, \<open>Growth\<close>,
  \<open>Decline\<close> and \<open>Stable\<close> are \<open>Sem_Venda\<close>, \<open>Crescimento\<close>, \<open>Queda\<close> and \<open>Estavel\<close>.
\<close>

fun first_match :: "(('a \<Rightarrow> bool) \<times> 'l) list \<Rightarrow> 'l \<Rightarrow> 'a \<Rightarrow> 'l" where
  "first_match [] d x = d"
| "first_match ((p, l) # rs) d x = (if p x then l else first_match rs d x)"

definition spec_rules :: "((amount \<times> amount \<Rightarrow> bool) \<times> status) list" where
  "spec_rules =
     [(\<lambda>(nov, baseline_avg). eq nov (Num 0), Sem_Venda),
      (\<lambda>(nov, baseline_avg). gt nov (mul baseline_avg (Num (11 / 10))), Crescimento),
      (\<lambda>(nov, baseline_avg). lt nov (mul baseline_avg (Num (9 / 10))), Queda)]"

definition classify_spec :: "amount \<Rightarrow> amount \<Rightarrow> status" where
  "classify_spec nov baseline_avg = first_match spec_rules Estavel (nov, baseline_avg)"



fun is_dashboard :: "element \<Rightarrow> bool" where
  "is_dashboard Painel_title = True"
| "is_dashboard (Visao_filtrada n) = True"
| "is_dashboard (Metric m v) = True"
| "is_dashboard Divider = True"
| "is_dashboard (Plotly_chart c rs) = True"
| "is_dashboard Detalhes_markdown = True"
| "is_dashboard (Dataframe rs) = True"
| "is_dashboard _ = False"

text \<open>An element written by the \<open>except\<close> branch of \<open>load_data\<close>.\<close>

fun is_load_error :: "element \<Rightarrow> bool" where
  "is_load_error (Error (Erro_ao_processar_dados e)) = True"
| "is_load_error _ = False"

subsection \<open>Example data\<close>

text \<open>The three records of section 8 of the specification, and the rows they load as.\<close>

definition exemplo :: payload where
  "exemplo = Records
     [\<lparr>jCidade = Some ''Recife'', jAGO = Some 100, jSET = Some 100, jOUT = Some 100, jNOV = Some 132\<rparr>,
      \<lparr>jCidade = Some ''Olinda'', jAGO = Some 100, jSET = Some 100, jOUT = Some 100, jNOV = Some 0\<rparr>,
      \<lparr>jCidade = Some ''Caruaru'', jAGO = Some 0, jSET = Some 0, jOUT = Some 0, jNOV = Some 50\<rparr>]"

definition recife :: row where
  "recife = \<lparr>Cidade = Some ''Recife'', AGO = Num 100, SET = Num 100, OUT = Num 100, NOV = Num 132,
     Media_Trimestre_Ant = Num 100, Status = Crescimento\<rparr>"

definition olinda :: row where
  "olinda = \<lparr>Cidade = Some ''Olinda'', AGO = Num 100, SET = Num 100, OUT = Num 100, NOV = Num 0,
     Media_Trimestre_Ant = Num 100, Status = Sem_Venda\<rparr>"

definition caruaru :: row where
  "caruaru = \<lparr>Cidade = Some ''Caruaru'', AGO = Num 0, SET = Num 0, OUT = Num 0, NOV = Num 50,
     Media_Trimestre_Ant = Num 0, Status = Crescimento\<rparr>"








definition sem_nov :: payload where
  "sem_nov = Records
     [\<lparr>jCidade = Some ''Recife'', jAGO = Some 100, jSET = Some 100, jOUT = Some 100, jNOV = None\<rparr>]"

definition cofre :: "payload \<Rightarrow> secrets" where
  "cofre dados = \<lparr>SENHA_ACESSO = ''segredo'', DADOS_VENDAS = dados\<rparr>"

definition autenticado :: session_state where
  "autenticado = \<lparr>logado = Some True, senha_input = ''segredo''\<rparr>"

definition nenhuma_cidade :: widgets where
  "nenhuma_cidade = \<lparr>cidades_widget = Some [], status_widget = None\<rparr>"

section \<open>Properties\<close>

subsection \<open>Sums, the loader, the filter\<close>



lemma get_status_classify:
  "get_status r = classify_spec (NOV r) (Media_Trimestre_Ant r)"
  by (simp add: get_status_def classify_spec_def spec_rules_def)

lemma getitem_DataFrame_nonempty:
  "getitem (DataFrame data) ''AGO'' f = Inr col \<Longrightarrow> data \<noteq> []"
  by (auto simp: getitem_def DataFrame_def split: if_splits)

lemma try_load_Inr:
  assumes "try_load dados = Inr df"
  shows "\<exists>data. dados = Records data \<and> data \<noteq> []
           \<and> rows df = map (\<lambda>d. with_status (with_media d)) (rows (DataFrame data))
           \<and> columns df = columns (DataFrame data) @ [''Media_Trimestre_Ant'', ''Status'']
           \<and> {''AGO'', ''SET'', ''OUT'', ''NOV''} \<subseteq> set (columns (DataFrame data))"
  using assms
  apply (cases dados)
   apply (simp add: try_load_def)
  apply (auto simp: try_load_def Let_def getitem_def apply_get_status_def DataFrame_def split: if_splits)
  done

lemma load_data_cases:
  "(try_load dados = Inr (fst (load_data dados)) \<and> snd (load_data dados) = [])
   \<or> (\<exists>e. try_load dados = Inl e \<and> load_data dados = (empty_DataFrame, [Error (Erro_ao_processar_dados e)]))"
  by (cases "try_load dados") (auto simp: load_data_def)

lemma filter_zip_map:
  "map fst (filter snd (zip xs (map P xs))) = filter P xs"
  by (induction xs) auto

lemma mask_and_isin:
  "mask_and (isin (map f xs) cs) (isin (map g xs) ss)
   = map (\<lambda>r. f r \<in> set cs \<and> g r \<in> set ss) xs"
  by (induction xs) (auto simp: mask_and_def isin_def)

lemma rows_filter_df:
  "rows (filter_df df cs ss) = filter (\<lambda>r. Cidade r \<in> set cs \<and> Status r \<in> set ss) (rows df)"
  by (simp add: filter_df_def loc_mask_def mask_and_isin filter_zip_map)

lemma columns_filter_df: "columns (filter_df df cs ss) = columns df"
  by (simp add: filter_df_def loc_mask_def)


lemma get_status_with_status [simp]: "get_status (with_status v) = get_status v"
  by (simp add: get_status_def with_status_def)

lemma loaded_row:
  assumes "try_load dados = Inr df" and "r \<in> set (rows df)"
  shows "Status r = get_status r"
    and "Media_Trimestre_Ant r = truediv (add (add (AGO r) (SET r)) (OUT r)) 3"
proof -
  from try_load_Inr [OF assms(1)] assms(2)
  obtain v where r: "r = with_status (with_media v)" by auto
  show "Status r = get_status r"
    unfolding r by (simp add: with_status_def get_status_def)
  show "Media_Trimestre_Ant r = truediv (add (add (AGO r) (SET r)) (OUT r)) 3"
    unfolding r by (simp add: with_status_def with_media_def)
qed

lemma rows_empty_DataFrame [simp]: "rows empty_DataFrame = []"
  by (simp add: empty_DataFrame_def)

lemma load_data_row:
  assumes "r \<in> set (rows (fst (load_data dados)))"
  shows "Status r = get_status r"
    and "Media_Trimestre_Ant r = truediv (add (add (AGO r) (SET r)) (OUT r)) 3"
  using assms loaded_row [of dados "fst (load_data dados)" r] load_data_cases [of dados]
  by auto

lemma set_unique [simp]: "set (unique xs) = set xs"
  by (simp add: unique_def)

lemma concat_somes: "None \<notin> set xs \<Longrightarrow>
  set (concat (map (\<lambda>x. case x of None \<Rightarrow> [] | Some s \<Rightarrow> [s]) xs)) = {s. Some s \<in> set xs}"
  by (induction xs) (auto split: option.splits)

lemma set_sorted_cells: "sorted_cells xs = Inr ys \<Longrightarrow> set ys = set xs"
proof -
  assume a: "sorted_cells xs = Inr ys"
  show ?thesis
  proof (cases "None \<in> set xs")
    case True
    with a show ?thesis by (auto simp: sorted_cells_def split: if_splits)
  next
    case False
    with a have ys: "ys = map Some (sort (concat (map (\<lambda>x. case x of None \<Rightarrow> [] | Some s \<Rightarrow> [s]) xs)))"
      by (auto simp: sorted_cells_def split: if_splits)
    have "set ys = Some ` {s. Some s \<in> set xs}"
      unfolding ys using concat_somes [OF False] by simp
    also have "\<dots> = set xs"
      using False by (auto simp: image_iff) (metis not_None_eq)
    finally show ?thesis .
  qed
qed

lemma cidades_disponiveis_Inr:
  assumes "cidades_disponiveis df = Inr cs"
  shows "''Cidade'' \<in> set (columns df) \<and> set cs = Cidade ` set (rows df)"
proof (cases "''Cidade'' \<in> set (columns df)")
  case False
  with assms show ?thesis by (simp add: cidades_disponiveis_def getitem_def)
next
  case True
  with assms have "sorted_cells (unique (map Cidade (rows df))) = Inr cs"
    by (simp add: cidades_disponiveis_def getitem_def)
  from set_sorted_cells [OF this] True show ?thesis by simp
qed

lemma status_disponiveis_Inr:
  assumes "status_disponiveis df = Inr sts"
  shows "''Status'' \<in> set (columns df) \<and> set sts = Status ` set (rows df)"
proof (cases "''Status'' \<in> set (columns df)")
  case False
  with assms show ?thesis by (simp add: status_disponiveis_def getitem_def)
next
  case True
  with assms have "sts = sort_key status_name (unique (map Status (rows df)))"
    by (simp add: status_disponiveis_def getitem_def)
  with True show ?thesis by simp
qed

lemma filter_df_all:
  assumes "Cidade ` set (rows df) \<subseteq> set cs" and "Status ` set (rows df) \<subseteq> set sts"
  shows "filter_df df cs sts = df"
proof -
  have "rows (filter_df df cs sts) = rows df"
    unfolding rows_filter_df using assms by (intro filter_True) auto
  then show ?thesis
    by (simp add: filter_df_def loc_mask_def)
qed



lemma variacao_Some:
  "variacao tn tm = Some (if tm > 0 then (tn / tm - 1) * 100 else 0)"
  by (simp add: variacao_def divide_opt_def)


subsection \<open>Runs of the script\<close>

lemma script_gate:
  "logado ss \<noteq> Some True \<Longrightarrow>
   script sec ss w =
     ((if logado ss = None then ss\<lparr>logado := Some False\<rparr> else ss), login_form, Stop)"
  by (simp add: script_def Let_def)

lemma script_logado_kept:
  "logado ss = Some True \<Longrightarrow> fst (script sec ss w) = ss"
  by (simp add: script_def Let_def split: prod.splits sum.splits)

lemma cidades_disponiveis_empty [simp]:
  "cidades_disponiveis empty_DataFrame = Inl (KeyError ''Cidade'')"
  by (simp add: cidades_disponiveis_def getitem_def empty_DataFrame_def)

lemma script_load_failure:
  assumes "logado ss = Some True" and "try_load (DADOS_VENDAS sec) = Inl e"
  shows "script sec ss w =
    (ss, [Error (Erro_ao_processar_dados e), Style_markdown, Sidebar_header],
     Uncaught (KeyError ''Cidade''))"
  using assms by (simp add: script_def Let_def load_data_def)

lemma dashboard_Finished:
  "dashboard df =
     ([Painel_title, Visao_filtrada (length (rows df)),
       Metric Total_Vendas (total_nov (rows df)), Metric Media_Trimestral (total_media (rows df)),
       Metric Variacao (if total_media (rows df) > 0
          then (total_nov (rows df) / total_media (rows df) - 1) * 100 else 0), Divider,
       Plotly_chart Vendas_de_Agosto (rows df), Plotly_chart Vendas_de_Setembro (rows df),
       Plotly_chart Vendas_de_Outubro (rows df), Plotly_chart Vendas_de_Novembro (rows df),
       Plotly_chart Comparativo (rows df), Detalhes_markdown, Dataframe (rows df)], Finished)"
  by (simp add: dashboard_def variacao_Some Let_def)

lemma script_loaded:
  assumes "logado ss = Some True" and "try_load (DADOS_VENDAS sec) = Inr df_full"
    and "cidades_disponiveis df_full = Inr cs" and "status_disponiveis df_full = Inr sts"
  shows "script sec ss w =
    (let df = filter_df df_full (multiselect cs (cidades_widget w)) (multiselect sts (status_widget w));
         sidebar = [Style_markdown, Sidebar_header, Multiselect_cidades cs, Multiselect_status sts]
     in if empty df then (ss, sidebar @ [Warning Nenhum_dado_encontrado], Stop)
        else (ss, sidebar @ fst (dashboard df), Finished))"
  using assms by (simp add: script_def Let_def load_data_def dashboard_Finished)

lemma script_cases:
  assumes "logado ss = Some True"
  obtains
    (failed) e where "try_load (DADOS_VENDAS sec) = Inl e"
  | (no_cidade) df_full e where "try_load (DADOS_VENDAS sec) = Inr df_full"
      "cidades_disponiveis df_full = Inl e"
  | (loaded) df_full cs sts where "try_load (DADOS_VENDAS sec) = Inr df_full"
      "cidades_disponiveis df_full = Inr cs" "status_disponiveis df_full = Inr sts"
proof (cases "try_load (DADOS_VENDAS sec)")
  case (Inl e)
  then show ?thesis by (rule failed)
next
  case (Inr df_full)
  from try_load_Inr [OF Inr] have "''Status'' \<in> set (columns df_full)" by auto
  then obtain sts where sts: "status_disponiveis df_full = Inr sts"
    by (auto simp: status_disponiveis_def getitem_def)
  show ?thesis
  proof (cases "cidades_disponiveis df_full")
    case (Inl e)
    with Inr show ?thesis by (rule no_cidade)
  next
    case (Inr cs)
    with \<open>try_load (DADOS_VENDAS sec) = Inr df_full\<close> sts show ?thesis by (intro loaded)
  qed
qed

lemma script_no_cidade:
  assumes "logado ss = Some True" and "try_load (DADOS_VENDAS sec) = Inr df_full"
    and "cidades_disponiveis df_full = Inl e"
  shows "script sec ss w = (ss, [Style_markdown, Sidebar_header], Uncaught e)"
  using assms by (simp add: script_def Let_def load_data_def)

lemma interact_logado:
  "logado (fst (fst (interact sec (ss, w) i))) = Some True
   \<longleftrightarrow> logado ss = Some True \<or> i = Enter_password (SENHA_ACESSO sec)"
proof (cases i)
  case Open_page
  then show ?thesis
    using script_gate [of ss sec w] script_logado_kept [of ss sec w]
    by (cases "logado ss = Some True") (auto split: prod.splits)
next
  case (Enter_password s)
  obtain ss1 els1 where v: "verificar_senha sec (ss\<lparr>senha_input := s\<rparr>) = (ss1, els1)"
    by (cases "verificar_senha sec (ss\<lparr>senha_input := s\<rparr>)")
  then have ss1: "logado ss1 = Some True \<longleftrightarrow> logado ss = Some True \<or> s = SENHA_ACESSO sec"
    by (auto simp: verificar_senha_def split: if_splits)
  have "logado (fst (script sec ss1 w)) = Some True \<longleftrightarrow> logado ss1 = Some True"
    using script_gate [of ss1 sec w] script_logado_kept [of ss1 sec w]
    by (cases "logado ss1 = Some True") auto
  with ss1 v Enter_password show ?thesis
    by (auto split: prod.splits)
next
  case (Change_filters w')
  then show ?thesis
    using script_gate [of ss sec w'] script_logado_kept [of ss sec w']
    by (cases "logado ss = Some True") (auto split: prod.splits)
qed

lemma session_logado:
  "logado (fst (session sec st is)) = Some True
   \<longleftrightarrow> logado (fst st) = Some True \<or> Enter_password (SENHA_ACESSO sec) \<in> set is"
proof (induction "is" arbitrary: st)
  case Nil
  then show ?case by simp
next
  case (Cons i "is")
  obtain ss w where st: "st = (ss, w)" by (cases st)
  obtain ss' w' where st': "fst (interact sec (ss, w) i) = (ss', w')"
    by (cases "fst (interact sec (ss, w) i)")
  from interact_logado [of sec ss w i] st'
  have "logado ss' = Some True \<longleftrightarrow> logado ss = Some True \<or> i = Enter_password (SENHA_ACESSO sec)"
    by simp
  with Cons.IH [of "(ss', w')"] st st' show ?case by auto
qed


lemma script_warning:
  assumes "Warning Nenhum_dado_encontrado \<in> set (fst (snd (script sec ss w)))"
  shows "snd (snd (script sec ss w)) = Stop"
    and "\<not> list_ex is_dashboard (fst (snd (script sec ss w)))"
    and "\<not> list_ex is_load_error (fst (snd (script sec ss w)))"
proof -
  have "snd (snd (script sec ss w)) = Stop
      \<and> \<not> list_ex is_dashboard (fst (snd (script sec ss w)))
      \<and> \<not> list_ex is_load_error (fst (snd (script sec ss w)))"
  proof (cases "logado ss = Some True")
    case False
    with assms show ?thesis by (auto simp: script_gate login_form_def)
  next
    case True
    then show ?thesis
    proof (cases rule: script_cases [where sec = sec])
      case (failed e)
      with assms True show ?thesis by (auto simp: script_load_failure)
    next
      case (no_cidade df_full e)
      with assms True show ?thesis by (auto simp: script_no_cidade)
    next
      case (loaded df_full cs sts)
      with assms True show ?thesis
        by (auto simp: script_loaded [OF True loaded] Let_def dashboard_Finished split: if_splits)
    qed
  qed
  then show "snd (snd (script sec ss w)) = Stop"
    and "\<not> list_ex is_dashboard (fst (snd (script sec ss w)))"
    and "\<not> list_ex is_load_error (fst (snd (script sec ss w)))" by auto
qed

section \<open>The claims\<close>

lemmas load_defs = load_data_def try_load_def DataFrame_def getitem_def apply_get_status_def
  with_media_def with_status_def get_status_def cell_def Let_def

lemma load_exemplo:
  "load_data exemplo =
     (\<lparr>columns = [''Cidade'', ''AGO'', ''SET'', ''OUT'', ''NOV'', ''Media_Trimestre_Ant'', ''Status''],
       rows = [recife, olinda, caruaru]\<rparr>, [])"
  by (simp add: exemplo_def load_defs recife_def olinda_def caruaru_def)

lemma cidades_exemplo:
  "cidades_disponiveis (fst (load_data exemplo))
     = Inr [Some ''Caruaru'', Some ''Olinda'', Some ''Recife'']"
  by (simp add: load_exemplo cidades_disponiveis_def getitem_def unique_def sorted_cells_def
      recife_def olinda_def caruaru_def)

lemma status_exemplo:
  "status_disponiveis (fst (load_data exemplo)) = Inr [Crescimento, Sem_Venda]"
  by (simp add: load_exemplo status_disponiveis_def getitem_def unique_def
      recife_def olinda_def caruaru_def)

text \<open>
  Claim C2. The classifier evaluates its rules in priority order and the first match wins:
  \<open>NOV == 0\<close> gives \<open>Sem_Venda\<close>, else \<open>NOV > Media * 1.1\<close> gives \<open>Crescimento\<close>, else
  \<open>NOV < Media * 0.9\<close> gives \<open>Queda\<close>, else \<open>Estavel\<close>. \<open>get_status\<close> is the first-match
  evaluation of the specification's rule list, and the \<open>Status\<close> of every row the loader
  returns is that label, so every record has exactly one of the four.
\<close>

theorem C2_first_match_wins:
  "get_status r = classify_spec (NOV r) (Media_Trimestre_Ant r)
   \<and> (\<forall>r' \<in> set (rows (fst (load_data dados))).
         Status r' = classify_spec (NOV r') (Media_Trimestre_Ant r'))"
  using load_data_row(1) [of _ dados] by (simp add: get_status_classify)

theorem C2_first_match_wins_witness:
  "recife \<in> set (rows (fst (load_data exemplo)))
   \<and> Status recife = classify_spec (NOV recife) (Media_Trimestre_Ant recife)
   \<and> Status recife = Crescimento"
proof -
  have mem: "recife \<in> set (rows (fst (load_data exemplo)))"
    by (simp add: load_exemplo)
  from C2_first_match_wins [of recife exemplo] mem
  have "Status recife = classify_spec (NOV recife) (Media_Trimestre_Ant recife)" by blast
  with mem show ?thesis by (simp add: recife_def)
qed



text \<open>
  Claim C4. The filtered frame holds exactly the rows whose \<open>Cidade\<close> is among the selected
  cities and whose \<open>Status\<close> is among the selected labels, in the order of the input: the
  two boolean masks and the selection by mask compute \<open>filter\<close>, and the result is a
  subsequence of the input rows.
\<close>

theorem C4_filter:
  "rows (filter_df df cidades_sel status_sel)
     = filter (\<lambda>r. Cidade r \<in> set cidades_sel \<and> Status r \<in> set status_sel) (rows df)
   \<and> columns (filter_df df cidades_sel status_sel) = columns df
   \<and> subseq (rows (filter_df df cidades_sel status_sel)) (rows df)"
  by (simp add: rows_filter_df columns_filter_df)

text \<open>
  Claim C5. With both multiselects at their default, which is every city and every label
  that occurs in the frame, the filter returns the frame itself: the same rows in the same
  order.
\<close>

theorem C5_identity_filter:
  assumes "cidades_disponiveis df = Inr cs" and "status_disponiveis df = Inr sts"
  shows "filter_df df (multiselect cs None) (multiselect sts None) = df"
  using cidades_disponiveis_Inr [OF assms(1)] status_disponiveis_Inr [OF assms(2)]
  by (simp add: multiselect_def filter_df_all)

theorem C5_identity_filter_witness:
  "cidades_disponiveis (fst (load_data exemplo))
     = Inr [Some ''Caruaru'', Some ''Olinda'', Some ''Recife'']
   \<and> status_disponiveis (fst (load_data exemplo)) = Inr [Crescimento, Sem_Venda]
   \<and> filter_df (fst (load_data exemplo))
        (multiselect [Some ''Caruaru'', Some ''Olinda'', Some ''Recife''] None)
        (multiselect [Crescimento, Sem_Venda] None) = fst (load_data exemplo)"
  using C5_identity_filter [OF cidades_exemplo status_exemplo] cidades_exemplo status_exemplo
  by simp

subsection \<open>The thresholds\<close>







subsection \<open>A load that fails\<close>

text \<open>
  The loader is all or nothing (\<open>load_data_cases\<close>): it returns the labelled frame and
  writes nothing, or it returns the empty frame and writes one error. What the script does
  next with the empty frame is \<open>script_load_failure\<close>: line 86 reads the column \<open>Cidade\<close>,
  which the empty frame does not have.
\<close>

lemma try_load_sem_nov: "try_load sem_nov = Inl (KeyError ''NOV'')"
  by (simp add: sem_nov_def try_load_def DataFrame_def getitem_def apply_get_status_def Let_def)

text \<open>
  Claim C1 says that a payload which cannot be loaded ends in an error message and not in
  a crash. The run below is a fresh session in which the user types the right password
  and the payload's only record has no \<open>NOV\<close>. \<open>load_data\<close> catches the \<open>KeyError\<close>,
  writes the message and returns the empty frame; the run then ends at line 86 with an
  uncaught \<open>KeyError\<close> for \<open>Cidade\<close>.
\<close>

theorem C1_load_failure_crashes:
  "interact (cofre sem_nov) fresh (Enter_password ''segredo'') =
     ((autenticado, snd fresh),
      [Error (Erro_ao_processar_dados (KeyError ''NOV'')), Style_markdown, Sidebar_header],
      Uncaught (KeyError ''Cidade''))"
proof -
  let ?w = "\<lparr>cidades_widget = None, status_widget = None\<rparr>"
  have v: "verificar_senha (cofre sem_nov) \<lparr>logado = None, senha_input = ''segredo''\<rparr>
           = (autenticado, [])"
    by (simp add: verificar_senha_def cofre_def autenticado_def)
  have s: "script (cofre sem_nov) autenticado ?w =
      (autenticado,
       [Error (Erro_ao_processar_dados (KeyError ''NOV'')), Style_markdown, Sidebar_header],
       Uncaught (KeyError ''Cidade''))"
    by (rule script_load_failure) (simp_all add: autenticado_def cofre_def try_load_sem_nov)
  show ?thesis
    unfolding fresh_def using v s by simp
qed

subsection \<open>The average of the quarter\<close>




subsection \<open>An empty selection\<close>

text \<open>
  Claim C8. When the data loaded and the filter leaves no row, the run writes the
  sidebar and the warning and stops: no metric, chart or table. The warning never shares a
  page with the load error: in any run that writes the warning, the run stops there, no
  dashboard element is written and no load error is.
\<close>

theorem C8_empty_result:
  "(logado ss = Some True \<and> load_data (DADOS_VENDAS sec) = (df_full, [])
      \<and> cidades_disponiveis df_full = Inr cs \<and> status_disponiveis df_full = Inr sts
      \<and> empty (filter_df df_full (multiselect cs (cidades_widget w))
                  (multiselect sts (status_widget w)))
     \<longrightarrow> script sec ss w =
           (ss, [Style_markdown, Sidebar_header, Multiselect_cidades cs, Multiselect_status sts,
                 Warning Nenhum_dado_encontrado], Stop))
   \<and> (Warning Nenhum_dado_encontrado \<in> set (fst (snd (script sec ss w)))
     \<longrightarrow> snd (snd (script sec ss w)) = Stop
         \<and> \<not> list_ex is_dashboard (fst (snd (script sec ss w)))
         \<and> \<not> list_ex is_load_error (fst (snd (script sec ss w))))"
proof -
  have a: "script sec ss w =
           (ss, [Style_markdown, Sidebar_header, Multiselect_cidades cs, Multiselect_status sts,
                 Warning Nenhum_dado_encontrado], Stop)"
    if l: "logado ss = Some True" and d: "load_data (DADOS_VENDAS sec) = (df_full, [])"
      and c: "cidades_disponiveis df_full = Inr cs" and s: "status_disponiveis df_full = Inr sts"
      and e: "empty (filter_df df_full (multiselect cs (cidades_widget w))
                  (multiselect sts (status_widget w)))"
  proof -
    from d load_data_cases [of "DADOS_VENDAS sec"]
    have "try_load (DADOS_VENDAS sec) = Inr df_full" by auto
    from script_loaded [OF l this c s] e show ?thesis by (simp add: Let_def)
  qed
  from a script_warning [of sec ss w] show ?thesis by blast
qed

theorem C8_empty_result_witness:
  "logado autenticado = Some True
   \<and> load_data (DADOS_VENDAS (cofre exemplo)) = (fst (load_data exemplo), [])
   \<and> empty (filter_df (fst (load_data exemplo))
        (multiselect [Some ''Caruaru'', Some ''Olinda'', Some ''Recife''] (cidades_widget nenhuma_cidade))
        (multiselect [Crescimento, Sem_Venda] (status_widget nenhuma_cidade)))
   \<and> script (cofre exemplo) autenticado nenhuma_cidade =
       (autenticado,
        [Style_markdown, Sidebar_header,
         Multiselect_cidades [Some ''Caruaru'', Some ''Olinda'', Some ''Recife''],
         Multiselect_status [Crescimento, Sem_Venda], Warning Nenhum_dado_encontrado], Stop)
   \<and> \<not> list_ex is_load_error (fst (snd (script (cofre exemplo) autenticado nenhuma_cidade)))"
proof -
  have l: "logado autenticado = Some True" by (simp add: autenticado_def)
  have d: "load_data (DADOS_VENDAS (cofre exemplo)) = (fst (load_data exemplo), [])"
    by (simp add: cofre_def load_exemplo)
  have e: "empty (filter_df (fst (load_data exemplo))
        (multiselect [Some ''Caruaru'', Some ''Olinda'', Some ''Recife''] (cidades_widget nenhuma_cidade))
        (multiselect [Crescimento, Sem_Venda] (status_widget nenhuma_cidade)))"
    by (simp add: empty_def rows_filter_df nenhuma_cidade_def multiselect_def)
  note c8 = C8_empty_result [of autenticado "cofre exemplo" "fst (load_data exemplo)"
      "[Some ''Caruaru'', Some ''Olinda'', Some ''Recife'']" "[Crescimento, Sem_Venda]" nenhuma_cidade]
  from c8 l d e cidades_exemplo status_exemplo
  have s: "script (cofre exemplo) autenticado nenhuma_cidade =
       (autenticado,
        [Style_markdown, Sidebar_header,
         Multiselect_cidades [Some ''Caruaru'', Some ''Olinda'', Some ''Recife''],
         Multiselect_status [Crescimento, Sem_Venda], Warning Nenhum_dado_encontrado], Stop)"
    by blast
  then have "Warning Nenhum_dado_encontrado
      \<in> set (fst (snd (script (cofre exemplo) autenticado nenhuma_cidade)))"
    by simp
  with c8 have "\<not> list_ex is_load_error (fst (snd (script (cofre exemplo) autenticado nenhuma_cidade)))"
    by blast
  with l d e s show ?thesis by blast
qed

subsection \<open>Totals of a union\<close>




subsection \<open>The login gate\<close>

text \<open>
  Claim C10. The flag \<open>logado\<close> is false after the first run of a fresh session. The
  callback sets it to true when the typed password equals the secret; on a mismatch it
  leaves the session state as it is and writes an error. Through any interaction, and so
  through any session, the flag is true afterwards exactly when it was true before or the
  right password was entered: no step sets it back. A run with the flag true leaves the
  state unchanged, and a run without it writes the login form and stops.
\<close>

theorem C10_logado:
  "logado (fst (script sec (fst fresh) w)) = Some False
   \<and> (senha_input ss = SENHA_ACESSO sec \<longrightarrow>
        verificar_senha sec ss = (ss\<lparr>logado := Some True\<rparr>, []))
   \<and> (senha_input ss \<noteq> SENHA_ACESSO sec \<longrightarrow>
        verificar_senha sec ss = (ss, [Error Senha_incorreta]))
   \<and> (logado (fst (fst (interact sec (ss, w) i))) = Some True
        \<longleftrightarrow> logado ss = Some True \<or> i = Enter_password (SENHA_ACESSO sec))
   \<and> (logado (fst (session sec (ss, w) is)) = Some True
        \<longleftrightarrow> logado ss = Some True \<or> Enter_password (SENHA_ACESSO sec) \<in> set is)
   \<and> (logado ss = Some True \<longrightarrow> fst (script sec ss w) = ss)
   \<and> (logado ss \<noteq> Some True \<longrightarrow> snd (script sec ss w) = (login_form, Stop))"
proof -
  have "logado (fst (script sec (fst fresh) w)) = Some False"
    by (simp add: script_gate fresh_def)
  moreover have "logado ss \<noteq> Some True \<longrightarrow> snd (script sec ss w) = (login_form, Stop)"
    by (simp add: script_gate)
  ultimately show ?thesis
    using interact_logado [of sec ss w i] session_logado [of sec "(ss, w)" "is"]
      script_logado_kept [of ss sec w]
    by (simp add: verificar_senha_def)
qed

theorem C10_logado_witness:
  "senha_input (fst fresh\<lparr>senha_input := ''segredo''\<rparr>) = SENHA_ACESSO (cofre exemplo)
   \<and> verificar_senha (cofre exemplo) (fst fresh\<lparr>senha_input := ''segredo''\<rparr>) = (autenticado, [])
   \<and> senha_input (fst fresh\<lparr>senha_input := ''errada''\<rparr>) \<noteq> SENHA_ACESSO (cofre exemplo)
   \<and> verificar_senha (cofre exemplo) (fst fresh\<lparr>senha_input := ''errada''\<rparr>)
       = (fst fresh\<lparr>senha_input := ''errada''\<rparr>, [Error Senha_incorreta])
   \<and> logado autenticado = Some True
   \<and> fst (script (cofre exemplo) autenticado nenhuma_cidade) = autenticado
   \<and> logado (fst fresh) \<noteq> Some True
   \<and> snd (script (cofre exemplo) (fst fresh) (snd fresh)) = (login_form, Stop)
   \<and> logado (fst (session (cofre exemplo) fresh
        [Open_page, Enter_password ''errada'', Enter_password ''segredo'', Open_page])) = Some True
   \<and> logado (fst (session (cofre exemplo) fresh [Open_page, Enter_password ''errada''])) \<noteq> Some True"
proof -
  have h1: "senha_input (fst fresh\<lparr>senha_input := ''segredo''\<rparr>) = SENHA_ACESSO (cofre exemplo)"
    and h2: "senha_input (fst fresh\<lparr>senha_input := ''errada''\<rparr>) \<noteq> SENHA_ACESSO (cofre exemplo)"
    and h3: "logado autenticado = Some True"
    and h4: "logado (fst fresh) \<noteq> Some True"
    and h5: "(fst fresh\<lparr>senha_input := ''segredo''\<rparr>)\<lparr>logado := Some True\<rparr> = autenticado"
    and h6: "SENHA_ACESSO (cofre exemplo) = ''segredo''"
    by (simp_all add: fresh_def cofre_def autenticado_def)
  have f: "fresh = (fst fresh, snd fresh)" by simp
  note c = C10_logado [of "cofre exemplo"]
  from c [of _ "fst fresh\<lparr>senha_input := ''segredo''\<rparr>"] h1 h5
  have a: "verificar_senha (cofre exemplo) (fst fresh\<lparr>senha_input := ''segredo''\<rparr>) = (autenticado, [])"
    by simp
  from c [of _ "fst fresh\<lparr>senha_input := ''errada''\<rparr>"] h2
  have b: "verificar_senha (cofre exemplo) (fst fresh\<lparr>senha_input := ''errada''\<rparr>)
       = (fst fresh\<lparr>senha_input := ''errada''\<rparr>, [Error Senha_incorreta])"
    by blast
  from c [of nenhuma_cidade autenticado] h3
  have d: "fst (script (cofre exemplo) autenticado nenhuma_cidade) = autenticado"
    by blast
  from c [of "snd fresh" "fst fresh"] h4
  have e: "snd (script (cofre exemplo) (fst fresh) (snd fresh)) = (login_form, Stop)"
    by blast
  from c [of "snd fresh" "fst fresh" _
      "[Open_page, Enter_password ''errada'', Enter_password ''segredo'', Open_page]"] h6
  have g: "logado (fst (session (cofre exemplo) fresh
        [Open_page, Enter_password ''errada'', Enter_password ''segredo'', Open_page])) = Some True"
    by simp
  from c [of "snd fresh" "fst fresh" _ "[Open_page, Enter_password ''errada'']"] h4 h6
  have h: "logado (fst (session (cofre exemplo) fresh [Open_page, Enter_password ''errada''])) \<noteq> Some True"
    by simp
  from h1 h2 h3 h4 a b d e g h show ?thesis by blast
qed

end
